theory Spec2Isabelle
  imports Complex_Main "HOL-Library.Word"
begin

section \<open>Numbers of the sketch\<close>

text \<open>
  The sketch is written for an AVR board (it installs \<^verbatim>\<open>ISR(TIMER1_COMPA_vect)\<close>),
  where \<^verbatim>\<open>double\<close> and \<^verbatim>\<open>float\<close> are the same 32-bit format, \<^verbatim>\<open>int\<close> and
  \<^verbatim>\<open>unsigned int\<close> have 16 bits and \<^verbatim>\<open>unsigned long\<close> has 32.

  A floating-point value is not-a-number, one of the two infinities, or a finite
  number; the two zeros are one value. Arithmetic is that of IEEE 754 binary32 with
  rounding to nearest, ties to even: every operation computes the exact result and
  rounds it with \<open>round32\<close>, which gives the nearest number with a 24-bit significand
  and an exponent between -126 and 127 (subnormal numbers included), or an infinity
  on overflow. Comparisons are the IEEE ones: every comparison with a not-a-number is
  false.
\<close>

datatype double = NaN | NInf | Fin real | PInf

text \<open>\<^verbatim>\<open>a >= b\<close> on two doubles.\<close>

fun fge :: "double \<Rightarrow> double \<Rightarrow> bool" where
  "fge NaN _ = False"
| "fge _ NaN = False"
| "fge PInf _ = True"
| "fge _ NInf = True"
| "fge NInf _ = False"
| "fge _ PInf = False"
| "fge (Fin a) (Fin b) = (a \<ge> b)"

text \<open>\<^verbatim>\<open>a < b\<close> on two doubles.\<close>

fun flt :: "double \<Rightarrow> double \<Rightarrow> bool" where
  "flt NaN _ = False"
| "flt _ NaN = False"
| "flt _ NInf = False"
| "flt NInf _ = True"
| "flt PInf _ = False"
| "flt _ PInf = True"
| "flt (Fin a) (Fin b) = (a < b)"

text \<open>\<^verbatim>\<open>-1*x\<close>: the integer constant -1 times a double. The product is exact.\<close>

fun fneg :: "double \<Rightarrow> double" where
  "fneg NaN = NaN"
| "fneg NInf = PInf"
| "fneg PInf = NInf"
| "fneg (Fin x) = Fin (- 1 * x)"

text \<open>Rounding a real to the nearest integer, a tie to the even neighbour.\<close>

definition rne :: "real \<Rightarrow> int" where
  "rne z = (let f = \<lfloor>z\<rfloor>; d = z - of_int f
            in if d < 1 / 2 then f else if d > 1 / 2 then f + 1
               else if even f then f else f + 1)"

text \<open>
  Magnitudes are counted in units of \<^verbatim>\<open>2^(-149)\<close>, the smallest subnormal number.
  The numbers around a magnitude of \<open>n\<close> units (rounded down) are one unit apart if
  \<open>n\<close> is below \<^verbatim>\<open>2^24\<close>; each doubling of the magnitude doubles the spacing.
\<close>

function ulp_of :: "nat \<Rightarrow> nat" where
  "ulp_of n = (if n < 2 ^ 24 then 1 else 2 * ulp_of (n div 2))"
  by pat_completeness auto
termination
  by (relation "measure id") auto

declare ulp_of.simps [simp del]

text \<open>
  Rounding a magnitude \<open>y \<ge> 0\<close>: to the nearest multiple of its spacing; a result
  of \<^verbatim>\<open>2^128\<close> (that is \<^verbatim>\<open>2^277\<close> units) or more is an overflow.
\<close>

definition round_mag :: "real \<Rightarrow> double" where
  "round_mag y =
     (let y' = y * 2 ^ 149;
          q = real (ulp_of (nat \<lfloor>y'\<rfloor>));
          v = real_of_int (rne (y' / q)) * q
      in if v \<ge> 2 ^ 277 then PInf else Fin (v / 2 ^ 149))"

definition round32 :: "real \<Rightarrow> double" where
  "round32 y = (if y < 0 then fneg (round_mag (- y)) else round_mag y)"

text \<open>\<^verbatim>\<open>x/2\<close>: a double divided by the integer constant 2.\<close>

fun fhalf :: "double \<Rightarrow> double" where
  "fhalf NaN = NaN"
| "fhalf NInf = NInf"
| "fhalf PInf = PInf"
| "fhalf (Fin x) = round32 (x / 2)"

text \<open>\<^verbatim>\<open>a - b\<close> on two doubles.\<close>

fun fsub :: "double \<Rightarrow> double \<Rightarrow> double" where
  "fsub NaN _ = NaN"
| "fsub _ NaN = NaN"
| "fsub PInf PInf = NaN"
| "fsub NInf NInf = NaN"
| "fsub PInf _ = PInf"
| "fsub NInf _ = NInf"
| "fsub _ PInf = NInf"
| "fsub _ NInf = PInf"
| "fsub (Fin a) (Fin b) = round32 (a - b)"

text \<open>
  The conversion of the \<^verbatim>\<open>unsigned long\<close> that \<^verbatim>\<open>millis()\<close> returns to a double,
  as in \<^verbatim>\<open>time_recent = millis();\<close>. Above \<^verbatim>\<open>2^24\<close> it rounds.
\<close>

definition of_millis :: "32 word \<Rightarrow> double" where
  "of_millis t = round32 (real (unat t))"

section \<open>The globals of PID.ino\<close>

text \<open>\<^verbatim>\<open>enum MODES{OPEN_LOOP,CLOSED_LOOP};\<close>\<close>

datatype MODES = OPEN_LOOP | CLOSED_LOOP

text \<open>\<^verbatim>\<open>const byte data_size = 64;\<close>\<close>

definition data_size :: nat where
  "data_size = 64"

text \<open>
  The globals of \<^verbatim>\<open>PID.ino\<close>, in the order of their declarations, followed by
  \<^item> \<open>rx_fill\<close>, the number of characters of the line in progress that
    \<^verbatim>\<open>receive_data\<close> has stored in \<^verbatim>\<open>received_data\<close> (it is used by the model of
    that function only);
  \<^item> \<open>dac_commands\<close>, the sequence of codes passed to \<^verbatim>\<open>set_dac\<close> so far, oldest
    first (the actuator holds the last one);
  \<^item> \<open>rtd_conversions\<close>, the number of calls of \<^verbatim>\<open>rtd.temperature(RNOMINAL, RREF)\<close>.

  The buffers \<^verbatim>\<open>received_data\<close> and \<^verbatim>\<open>temp_data\<close> hold C strings and are modelled
  by the string they hold. \<^verbatim>\<open>dac_output\<close>, \<^verbatim>\<open>functionCall\<close> and \<^verbatim>\<open>strtok_index\<close>
  are used by no function of \<^verbatim>\<open>PID.ino\<close> and are left out.
\<close>

record state =
  temperature :: double
  setpoint :: double
  error :: double
  band :: double
  t_integral :: double
  t_derivative :: double
  u1 :: double
  u2 :: double
  u3 :: double
  period :: "16 word"
  dt :: double
  time_control :: double
  time_recent :: double
  control_flag :: bool
  received_data :: string
  temp_data :: string
  newData :: bool
  mode :: MODES
  rx_fill :: nat
  dac_commands :: "int list"
  rtd_conversions :: nat

text \<open>
  The state after the C runtime has initialised the globals and before \<^verbatim>\<open>setup()\<close>:
  \<^verbatim>\<open>control_flag = false\<close>, \<^verbatim>\<open>newData = false\<close>, \<^verbatim>\<open>mode = OPEN_LOOP\<close>, everything
  else zero, no actuator command issued and no conversion made.
\<close>

definition power_on :: state where
  "power_on =
     \<lparr> temperature = Fin 0, setpoint = Fin 0, error = Fin 0,
       band = Fin 0, t_integral = Fin 0, t_derivative = Fin 0,
       u1 = Fin 0, u2 = Fin 0, u3 = Fin 0,
       period = 0, dt = Fin 0, time_control = Fin 0, time_recent = Fin 0,
       control_flag = False, received_data = [], temp_data = [],
       newData = False, mode = OPEN_LOOP, rx_fill = 0,
       dac_commands = [], rtd_conversions = 0 \<rparr>"

text \<open>The code the actuator was last commanded to, if any command was issued.\<close>

definition commanded :: "state \<Rightarrow> int option" where
  "commanded s = (if dac_commands s = [] then None else Some (last (dac_commands s)))"

section \<open>The helpers of the companion files\<close>

text \<open>
  \<^verbatim>\<open>PID.ino\<close> calls \<^verbatim>\<open>set_dac\<close>, \<^verbatim>\<open>set_setpoint\<close>, \<^verbatim>\<open>set_parameters\<close> and
  \<^verbatim>\<open>set_period\<close>, which live in \<^verbatim>\<open>get_and_set.ino\<close>, and \<^verbatim>\<open>receive_data\<close> and
  \<^verbatim>\<open>parseData\<close>, which live in \<^verbatim>\<open>serial_data.ino\<close>. Neither file is among the
  sources. The four setters are modelled from the specification. The two serial
  functions are parameters of \<open>loop\<close>; a model of them from the specification
  follows the main loop, for the one statement that needs to know what they write.
\<close>

definition set_dac :: "int \<Rightarrow> state \<Rightarrow> state" where
  \<comment> \<open>Modelled from the spec: \<^verbatim>\<open>set_dac\<close> (get_and_set.ino) is missing. Actuator Adapter:
      "accepts a signed output code and programs the actuator", "fire-and-forget". The
      command is recorded in the sequence of commands the actuator received.\<close>
  "set_dac code s = s\<lparr>dac_commands := dac_commands s @ [code]\<rparr>"

definition set_setpoint :: "double \<Rightarrow> state \<Rightarrow> state" where
  \<comment> \<open>Modelled from the spec: \<^verbatim>\<open>set_setpoint\<close> (get_and_set.ino) is missing. "setpoint:
      target temperature; written only by the dispatcher's setpoint command", "set
      setpoint (one float argument)".\<close>
  "set_setpoint v s = s\<lparr>setpoint := v\<rparr>"

definition set_parameters :: "double \<Rightarrow> double \<Rightarrow> double \<Rightarrow> state \<Rightarrow> state" where
  \<comment> \<open>Modelled from the spec: \<^verbatim>\<open>set_parameters\<close> (get_and_set.ino) is missing. "set
      parameters: band, integral time, derivative time (three float arguments,
      atomically applied together)"; a non-positive band is "accepted as valid input".\<close>
  "set_parameters b ti td s = s\<lparr>band := b, t_integral := ti, t_derivative := td\<rparr>"

definition set_period :: "16 word \<Rightarrow> state \<Rightarrow> state" where
  \<comment> \<open>Modelled from the spec: \<^verbatim>\<open>set_period\<close> (get_and_set.ino) is missing. "period:
      control-tick interval", "set period (integer argument in time units; triggers Tick
      Scheduler rearm)". The timer registers are not part of the state: a tick is a step
      of the interrupt handler below.\<close>
  "set_period p s = s\<lparr>period := p\<rparr>"

section \<open>The control law\<close>

text \<open>
  \<^verbatim>\<open>control()\<close> of \<^verbatim>\<open>PID.ino\<close> (lines 71-86): it reads the global \<^verbatim>\<open>error\<close>.
  \<^verbatim>\<open>-1*band/2\<close> is \<^verbatim>\<open>((-1)*band)/2\<close>.
\<close>

definition control :: "state \<Rightarrow> state" where
  "control s =
     (if fge (error s) (fhalf (band s)) then set_dac (- 4095) s
      else if flt (error s) (fhalf (fneg (band s))) then set_dac 0 s
      else s)"

text \<open>
  \<^verbatim>\<open>control()\<close> of \<^verbatim>\<open>control.ino\<close> (lines 8-26): it computes a local
  \<^verbatim>\<open>float error = temperature - setpoint\<close> and leaves the globals alone.
\<close>

definition control_local :: "state \<Rightarrow> state" where
  "control_local s =
     (let error = fsub (temperature s) (setpoint s)
      in if fge error (fhalf (band s)) then set_dac (- 4095) s
         else if flt error (fhalf (fneg (band s))) then set_dac 0 s
         else s)"

section \<open>Measurement, start-up, main loop and interrupt\<close>

text \<open>
  \<^verbatim>\<open>read_temperature()\<close> (lines 141-151). \<open>reading\<close> is what
  \<^verbatim>\<open>rtd.temperature(RNOMINAL, RREF)\<close> returns and \<open>now\<close> what \<^verbatim>\<open>millis()\<close> returns.
\<close>

definition read_temperature :: "double \<Rightarrow> 32 word \<Rightarrow> state \<Rightarrow> state" where
  "read_temperature reading now s =
     (let s1 = s\<lparr>temperature := reading, rtd_conversions := Suc (rtd_conversions s)\<rparr>;
          s2 = s1\<lparr>error := fsub (temperature s1) (setpoint s1)\<rparr>
      in s2\<lparr>time_recent := of_millis now\<rparr>)"

text \<open>
  \<^verbatim>\<open>initialize()\<close> (lines 88-101). \<open>reading\<close> is the preliminary reading, \<open>now1\<close> and
  \<open>now2\<close> are the results of the two calls of \<^verbatim>\<open>millis()\<close>.
\<close>

definition initialize :: "double \<Rightarrow> 32 word \<Rightarrow> 32 word \<Rightarrow> state \<Rightarrow> state" where
  "initialize reading now1 now2 s =
     (let s1 = set_setpoint (Fin 24.50) s;
          s2 = set_parameters (Fin 4.8) (Fin 15.16) (Fin 23.42) s1;
          s3 = set_period 350 s2;
          s4 = set_dac 0 s3;
          s5 = s4\<lparr>temperature := reading, rtd_conversions := Suc (rtd_conversions s4)\<rparr>;
          s6 = s5\<lparr>time_control := of_millis now1\<rparr>
      in s6\<lparr>time_recent := of_millis now2\<rparr>)"

text \<open>
  \<^verbatim>\<open>setup()\<close> (lines 103-116), under the name \<open>setup_sketch\<close>. \<^verbatim>\<open>ENABLE_OUTPUT\<close> is \<^verbatim>\<open>false\<close>, so the block that
  talks to the DAC is skipped; \<^verbatim>\<open>Serial.begin\<close> and \<^verbatim>\<open>rtd.begin\<close> touch no global.
\<close>

definition setup_sketch :: "double \<Rightarrow> 32 word \<Rightarrow> 32 word \<Rightarrow> state \<Rightarrow> state" where
  "setup_sketch reading now1 now2 s = initialize reading now1 now2 s"

text \<open>The third phase of \<^verbatim>\<open>loop()\<close> (lines 128-138).\<close>

definition control_service :: "double \<Rightarrow> 32 word \<Rightarrow> state \<Rightarrow> state" where
  "control_service reading now s =
     (if control_flag s then
        (let s1 = read_temperature reading now s;
             s2 = s1\<lparr>dt := fsub (time_recent s1) (time_control s1)\<rparr>;
             s3 = s2\<lparr>time_control := time_recent s2\<rparr>;
             s4 = (if mode s3 = CLOSED_LOOP then control s3 else s3)
         in s4\<lparr>control_flag := False\<rparr>)
      else s)"

text \<open>The second phase of \<^verbatim>\<open>loop()\<close> (lines 121-126); \<open>parseData\<close> is a parameter.\<close>

definition command_dispatch :: "(state \<Rightarrow> state) \<Rightarrow> state \<Rightarrow> state" where
  "command_dispatch parseData s =
     (if newData s = True then
        (let s1 = s\<lparr>temp_data := received_data s\<rparr>;
             s2 = parseData s1
         in s2\<lparr>newData := False\<rparr>)
      else s)"

text \<open>
  \<^verbatim>\<open>loop()\<close> (lines 118-139), one pass. \<open>receive_data\<close> and \<open>parseData\<close> stand for
  the two functions of \<^verbatim>\<open>serial_data.ino\<close>; \<open>reading\<close> and \<open>now\<close> are what the sensor
  and the clock return if the pass asks them.
\<close>

definition loop :: "(state \<Rightarrow> state) \<Rightarrow> (state \<Rightarrow> state) \<Rightarrow> double \<Rightarrow> 32 word \<Rightarrow> state \<Rightarrow> state" where
  "loop receive_data parseData reading now s =
     (let s1 = receive_data s;
          s2 = command_dispatch parseData s1
      in control_service reading now s2)"

text \<open>\<^verbatim>\<open>ISR(TIMER1_COMPA_vect)\<close> (lines 153-164).\<close>

definition ISR_TIMER1_COMPA :: "state \<Rightarrow> state" where
  "ISR_TIMER1_COMPA s = s\<lparr>control_flag := True\<rparr>"

section \<open>The serial functions, from the specification\<close>

text \<open>
  The operations the specification lists for the command dispatcher (section 4.5): set
  and get of the setpoint, set of the three parameters, set and get of the period,
  set and get of the mode, the direct actuator override, set and get of each debug
  scalar, and the queries of the live readings.
\<close>

datatype command =
    Set_setpoint double | Get_setpoint
  | Set_parameters double double double
  | Set_period "16 word" | Get_period
  | Set_mode MODES | Get_mode
  | Set_dac int
  | Set_u1 double | Get_u1
  | Set_u2 double | Get_u2
  | Set_u3 double | Get_u3
  | Get_temperature | Get_error | Get_time

fun execute :: "command \<Rightarrow> state \<Rightarrow> state" where
  \<comment> \<open>Modelled from the spec: the operations behind \<^verbatim>\<open>parseData\<close> (serial_data.ino,
      get_and_set.ino) are missing. Section 4.5: a command is routed "to the matching
      setter/getter, mutating Control State or emitting a response". A setter writes
      its fields; a getter or query answers on the serial line, which is not part of
      the state.\<close>
  "execute (Set_setpoint v) s = set_setpoint v s"
| "execute (Set_parameters b ti td) s = set_parameters b ti td s"
| "execute (Set_period p) s = set_period p s"
| "execute (Set_mode m) s = s\<lparr>mode := m\<rparr>"
| "execute (Set_dac code) s = set_dac code s"
| "execute (Set_u1 v) s = s\<lparr>u1 := v\<rparr>"
| "execute (Set_u2 v) s = s\<lparr>u2 := v\<rparr>"
| "execute (Set_u3 v) s = s\<lparr>u3 := v\<rparr>"
| "execute _ s = s"

definition parseData_model :: "(string \<Rightarrow> command option) \<Rightarrow> state \<Rightarrow> state" where
  \<comment> \<open>Modelled from the spec: \<^verbatim>\<open>parseData\<close> (serial_data.ino) is missing. Section 4.5:
      "given a line of the form functionName,arg1,arg2,..., identify the function name
      and positional arguments, then route to one of a fixed, enumerable set of
      operations"; unrecognized names and malformed arguments are "reported as a
      distinct error response", "state left unchanged". The set of function names is "an
      implementation choice": \<open>grammar\<close> reads the scratch buffer and gives the
      operation, or \<open>None\<close> for a line that is reported as an error.\<close>
  "parseData_model grammar s =
     (case grammar (temp_data s) of None \<Rightarrow> s | Some c \<Rightarrow> execute c s)"

fun receive_data_model :: "string \<Rightarrow> state \<Rightarrow> state" where
  \<comment> \<open>Modelled from the spec: \<^verbatim>\<open>receive_data\<close> (serial_data.ino) is missing. Section
      4.2: "non-blocking read of available bytes one at a time into a fixed-capacity
      buffer, terminated by a designated end-of-line marker; on overflow, discard
      excess silently", "sets a line ready indicator when the terminator is seen";
      section 6: lines are "newline-terminated". The argument is the bytes available
      on the serial line; reading stops when a line is ready.\<close>
  "receive_data_model [] s = s"
| "receive_data_model (c # cs) s =
     (if newData s then s
      else if c = CHR 0x0A then
        receive_data_model cs
          (s\<lparr>received_data := take (rx_fill s) (received_data s),
             rx_fill := 0, newData := True\<rparr>)
      else if rx_fill s < data_size - 1 then
        receive_data_model cs
          (s\<lparr>received_data := take (rx_fill s) (received_data s) @ [c],
             rx_fill := Suc (rx_fill s)\<rparr>)
      else receive_data_model cs s)"

section \<open>Observations and sample states\<close>

text \<open>The actuator commands issued on the way from state \<open>s\<close> to the later state \<open>s'\<close>.\<close>

definition issued :: "state \<Rightarrow> state \<Rightarrow> int list" where
  "issued s s' = drop (length (dac_commands s)) (dac_commands s')"

text \<open>
  A controller that has started with the values of \<^verbatim>\<open>initialize()\<close> and was then
  switched to closed loop.
\<close>

definition running :: state where
  "running =
     power_on\<lparr>setpoint := Fin 24.50, band := Fin 4.8, t_integral := Fin 15.16,
               t_derivative := Fin 23.42, period := 350, mode := CLOSED_LOOP,
               dac_commands := [0], rtd_conversions := 1\<rparr>"

text \<open>5.5 degrees above the setpoint: above the band.\<close>

definition too_warm :: state where
  "too_warm = running\<lparr>temperature := Fin 30, error := Fin 5.5\<rparr>"

text \<open>6.5 degrees below the setpoint: below the band.\<close>

definition too_cold :: state where
  "too_cold = running\<lparr>temperature := Fin 18, error := Fin (- 6.5)\<rparr>"

text \<open>1.5 degrees above the setpoint: inside the band, the actuator at full scale.\<close>

definition in_band :: state where
  "in_band = running\<lparr>temperature := Fin 26, error := Fin 1.5, dac_commands := [0, - 4095]\<rparr>"

text \<open>The host has set the band to -4; the temperature is at the setpoint.\<close>

definition negative_band :: state where
  "negative_band = running\<lparr>band := Fin (- 4), temperature := Fin 24.50, error := Fin 0\<rparr>"

text \<open>The same with another history: open loop, other commands issued before.\<close>

definition negative_band_other :: state where
  "negative_band_other =
     negative_band\<lparr>mode := OPEN_LOOP, dac_commands := [0, 100, 0], u1 := Fin 7\<rparr>"

text \<open>
  A pass of the loop in which the line \<^verbatim>\<open>setpoint,30.0\<close> arrives while a tick is
  pending: what the serial intake does, and what the dispatcher does with that line.
\<close>

definition line_arrives :: "state \<Rightarrow> state" where
  "line_arrives s = s\<lparr>received_data := ''setpoint,30.0'', newData := True\<rparr>"

definition tick_pending :: state where
  "tick_pending = in_band\<lparr>control_flag := True\<rparr>"

text \<open>
  The host has set the setpoint to 0.3 and the band to 39.4, which as binary32 numbers
  are \<^verbatim>\<open>5033165 * 2^(-24)\<close> and \<^verbatim>\<open>5164237 * 2^(-17)\<close>; a tick is pending.
\<close>

definition wide_band :: state where
  "wide_band =
     running\<lparr>setpoint := Fin (5033165 / 2 ^ 24), band := Fin (5164237 / 2 ^ 17),
              control_flag := True\<rparr>"

text \<open>
  A band of \<open>b\<close> and an error of \<open>e\<close> units of \<^verbatim>\<open>2^(-149)\<close>, the smallest subnormal
  number.
\<close>

definition tiny_band :: "int \<Rightarrow> int \<Rightarrow> state" where
  "tiny_band b e =
     running\<lparr>band := Fin (of_int b / 2 ^ 149), error := Fin (of_int e / 2 ^ 149)\<rparr>"

section \<open>Facts about the arithmetic\<close>



lemma ulp_of_pos: "0 < ulp_of n"
  by (induction n rule: ulp_of.induct) (subst ulp_of.simps, simp)

lemma rne_nonneg: "0 \<le> z \<Longrightarrow> 0 \<le> rne z"
  by (simp add: rne_def Let_def)

lemma round_mag_nonneg: "0 \<le> y \<Longrightarrow> fge (round_mag y) (Fin 0)"
  by (simp add: round_mag_def Let_def rne_nonneg)

lemma round_mag_zero: "round_mag 0 = Fin 0"
  by (simp add: round_mag_def Let_def rne_def)

lemma fneg_nonpos: "fge d (Fin 0) \<Longrightarrow> fge (Fin 0) (fneg d)"
  by (cases d) auto

lemma fneg_nonneg: "fge (Fin 0) d \<Longrightarrow> fge (fneg d) (Fin 0)"
  by (cases d) auto

lemma rne_le: "z \<le> real_of_int m \<Longrightarrow> rne z \<le> m"
proof -
  assume le: "z \<le> real_of_int m"
  then have fl: "\<lfloor>z\<rfloor> \<le> m" by (metis floor_mono floor_of_int)
  show ?thesis
  proof (cases "\<lfloor>z\<rfloor> = m")
    case True
    with le have "z - of_int \<lfloor>z\<rfloor> \<le> 0" by simp
    then have "z - of_int \<lfloor>z\<rfloor> < 1 / 2" by linarith
    with True show ?thesis by (simp add: rne_def Let_def)
  next
    case False
    with fl have "\<lfloor>z\<rfloor> + 1 \<le> m" by linarith
    then show ?thesis by (simp add: rne_def Let_def)
  qed
qed

lemma rne_ge: "real_of_int m \<le> z \<Longrightarrow> m \<le> rne z"
proof -
  assume "real_of_int m \<le> z"
  then have "m \<le> \<lfloor>z\<rfloor>" by (simp add: le_floor_iff)
  then show ?thesis by (simp add: rne_def Let_def)
qed

lemma rne_of_int: "rne (real_of_int m) = m"
  by (simp add: rne_def Let_def)

lemma ulp_of_mono: "a \<le> b \<Longrightarrow> ulp_of a \<le> ulp_of b"
proof (induction b arbitrary: a rule: ulp_of.induct)
  case (1 n)
  show ?case
  proof (cases "n < 2 ^ 24")
    case True
    with "1.prems" show ?thesis by (simp add: ulp_of.simps)
  next
    case False
    show ?thesis
    proof (cases "a < 2 ^ 24")
      case True
      then have "ulp_of a = 1" by (simp add: ulp_of.simps)
      with ulp_of_pos [of n] show ?thesis by simp
    next
      case a: False
      from "1.prems" have "a div 2 \<le> n div 2" by (rule div_le_mono)
      with "1.IH" [OF False] have "ulp_of (a div 2) \<le> ulp_of (n div 2)" .
      with a False show ?thesis by (simp add: ulp_of.simps)
    qed
  qed
qed

lemma ulp_of_upper: "n < 2 ^ 24 * ulp_of n"
proof (induction n rule: ulp_of.induct)
  case (1 n)
  show ?case
  proof (cases "n < 2 ^ 24")
    case True
    then show ?thesis by (simp add: ulp_of.simps)
  next
    case False
    from "1.IH" [OF False] have "n div 2 < 2 ^ 24 * ulp_of (n div 2)" .
    then have "n < 2 * (2 ^ 24 * ulp_of (n div 2))" by linarith
    with False show ?thesis by (simp add: ulp_of.simps)
  qed
qed

lemma ulp_of_lower: "1 < ulp_of n \<Longrightarrow> 2 ^ 23 * ulp_of n \<le> n"
proof (induction n rule: ulp_of.induct)
  case (1 n)
  show ?case
  proof (cases "n < 2 ^ 24")
    case True
    with "1.prems" show ?thesis by (simp add: ulp_of.simps)
  next
    case False
    have half: "2 ^ 23 * ulp_of (n div 2) \<le> n div 2"
    proof (cases "1 < ulp_of (n div 2)")
      case True
      with "1.IH" [OF False] show ?thesis .
    next
      case False
      with ulp_of_pos [of "n div 2"] have "ulp_of (n div 2) = 1" by linarith
      with \<open>\<not> n < 2 ^ 24\<close> show ?thesis by simp
    qed
    then have "2 * (2 ^ 23 * ulp_of (n div 2)) \<le> n" by linarith
    with False show ?thesis by (simp add: ulp_of.simps)
  qed
qed

lemma ulp_of_power: "\<exists>i. ulp_of n = 2 ^ i"
proof (induction n rule: ulp_of.induct)
  case (1 n)
  show ?case
  proof (cases "n < 2 ^ 24")
    case True
    then have "ulp_of n = 2 ^ 0" by (simp add: ulp_of.simps)
    then show ?thesis by blast
  next
    case False
    from "1.IH" [OF False] obtain i where "ulp_of (n div 2) = 2 ^ i" by blast
    with False have "ulp_of n = 2 ^ Suc i" by (simp add: ulp_of.simps)
    then show ?thesis by blast
  qed
qed

lemma ulp_of_step: "ulp_of a < ulp_of b \<Longrightarrow> 2 * ulp_of a \<le> ulp_of b"
proof -
  assume less: "ulp_of a < ulp_of b"
  obtain i where i: "ulp_of a = 2 ^ i" using ulp_of_power by blast
  obtain j where j: "ulp_of b = 2 ^ j" using ulp_of_power by blast
  from less i j have "(2::nat) ^ i < 2 ^ j" by simp
  then have "i < j" by simp
  then have "Suc i \<le> j" by simp
  then have "(2::nat) ^ Suc i \<le> 2 ^ j" by (rule power_increasing) simp
  with i j show ?thesis by simp
qed


text \<open>A magnitude that rounding leaves alone is a whole number of units, a multiple of its spacing.\<close>

lemma round_mag_fixed:
  assumes "0 \<le> e" and "round_mag e = Fin e"
  shows "real_of_int (rne (e * 2 ^ 149 / real (ulp_of (nat \<lfloor>e * 2 ^ 149\<rfloor>)))) *
           real (ulp_of (nat \<lfloor>e * 2 ^ 149\<rfloor>)) = e * 2 ^ 149"
    and "e * 2 ^ 149 < 2 ^ 277"
    and "real (nat \<lfloor>e * 2 ^ 149\<rfloor>) = e * 2 ^ 149"
proof -
  define E where "E = e * 2 ^ 149"
  define q where "q = ulp_of (nat \<lfloor>E\<rfloor>)"
  define m where "m = rne (E / real q)"
  from assms(2) have v: "\<not> real_of_int m * real q \<ge> 2 ^ 277"
      "real_of_int m * real q / 2 ^ 149 = e"
    unfolding round_mag_def Let_def E_def [symmetric] q_def [symmetric] m_def [symmetric]
    by (auto split: if_splits)
  from v(2) have eq: "real_of_int m * real q = E"
    by (simp add: E_def field_simps)
  with v(1) have small: "E < 2 ^ 277"
    by simp
  from eq have "E = real_of_int (m * int q)"
    by simp
  then have "real_of_int \<lfloor>E\<rfloor> = E"
    by (metis floor_of_int)
  moreover from assms(1) have "0 \<le> E"
    by (simp add: E_def)
  ultimately have whole: "real (nat \<lfloor>E\<rfloor>) = E"
    by simp
  from eq small whole show
    "real_of_int (rne (e * 2 ^ 149 / real (ulp_of (nat \<lfloor>e * 2 ^ 149\<rfloor>)))) *
       real (ulp_of (nat \<lfloor>e * 2 ^ 149\<rfloor>)) = e * 2 ^ 149"
    "e * 2 ^ 149 < 2 ^ 277"
    "real (nat \<lfloor>e * 2 ^ 149\<rfloor>) = e * 2 ^ 149"
    unfolding E_def m_def q_def by simp_all
qed

text \<open>Rounding does not cross a number that rounding leaves alone: from below.\<close>

lemma round_mag_upper:
  assumes "0 \<le> x" and "x \<le> e" and "round_mag e = Fin e"
  shows "fge (Fin e) (round_mag x)"
proof -
  define E where "E = e * 2 ^ 149"
  define X where "X = x * 2 ^ 149"
  define NE where "NE = nat \<lfloor>E\<rfloor>"
  define qE where "qE = ulp_of NE"
  define mE where "mE = rne (E / real qE)"
  define n where "n = nat \<lfloor>X\<rfloor>"
  define q where "q = ulp_of n"
  define k where "k = rne (X / real q)"
  from assms have e0: "0 \<le> e" by simp
  note fixed = round_mag_fixed [OF e0 assms(3)]
  from fixed have eq: "real_of_int mE * real qE = E" and small: "E < 2 ^ 277"
    and whole: "real NE = E"
    by (simp_all add: E_def NE_def qE_def mE_def)
  from assms have X0: "0 \<le> X" and XE: "X \<le> E"
    by (simp_all add: X_def E_def)
  have qpos: "0 < real q" "0 < real qE"
    by (simp_all add: q_def qE_def ulp_of_pos)
  from XE have "n \<le> NE"
    unfolding n_def NE_def by (intro nat_mono floor_mono)
  then have qle: "q \<le> qE"
    unfolding q_def qE_def by (rule ulp_of_mono)
  have key: "real_of_int k * real q \<le> E"
  proof (cases "q = qE")
    case True
    from XE qpos have "X / real q \<le> E / real q"
      by (simp add: divide_right_mono)
    also from eq True qpos have "E / real q = real_of_int mE"
      by (simp add: field_simps)
    finally have "k \<le> mE"
      unfolding k_def by (rule rne_le)
    then have "real_of_int k * real q \<le> real_of_int mE * real q"
      using qpos by (simp add: mult_right_mono)
    with eq True show ?thesis by simp
  next
    case False
    with qle have "q < qE" by simp
    then have step: "2 * q \<le> qE"
      unfolding q_def qE_def by (rule ulp_of_step)
    with ulp_of_pos [of n] have "1 < qE"
      by (simp add: q_def)
    then have "2 ^ 23 * qE \<le> NE"
      unfolding qE_def by (rule ulp_of_lower)
    with step have big: "2 ^ 24 * q \<le> NE"
      by simp
    from ulp_of_upper [of n] have "n + 1 \<le> 2 ^ 24 * q"
      by (simp add: q_def)
    then have "real (n + 1) \<le> real (2 ^ 24 * q)"
      by (simp only: of_nat_le_iff)
    then have "real n + 1 \<le> real (2 ^ 24 * q)"
      by simp
    moreover from X0 have "X < real n + 1"
      unfolding n_def by linarith
    ultimately have "X \<le> 2 ^ 24 * real q"
      by simp
    with qpos have "X / real q \<le> real_of_int (2 ^ 24)"
      by (simp add: field_simps)
    then have "k \<le> 2 ^ 24"
      unfolding k_def by (rule rne_le)
    then have "real_of_int k \<le> real_of_int (2 ^ 24)"
      by (simp only: of_int_le_iff)
    then have "real_of_int k \<le> 2 ^ 24"
      by simp
    then have "real_of_int k * real q \<le> 2 ^ 24 * real q"
      using qpos by (simp add: mult_right_mono)
    also from big have "2 ^ 24 * real q \<le> real NE"
      by (metis of_nat_le_iff of_nat_mult of_nat_numeral of_nat_power)
    finally show ?thesis
      using whole by simp
  qed
  with small have "\<not> real_of_int k * real q \<ge> 2 ^ 277"
    by simp
  then have "round_mag x = Fin (real_of_int k * real q / 2 ^ 149)"
    unfolding round_mag_def Let_def X_def [symmetric] n_def [symmetric] q_def [symmetric]
      k_def [symmetric]
    by simp
  moreover from key have "real_of_int k * real q / 2 ^ 149 \<le> e"
    by (simp add: E_def field_simps)
  ultimately show ?thesis
    by simp
qed

text \<open>And from above.\<close>

lemma round_mag_lower:
  assumes "0 \<le> f" and "f \<le> y" and "round_mag f = Fin f"
  shows "fge (round_mag y) (Fin f)"
proof -
  define F where "F = f * 2 ^ 149"
  define Y where "Y = y * 2 ^ 149"
  define NF where "NF = nat \<lfloor>F\<rfloor>"
  define qF where "qF = ulp_of NF"
  define mF where "mF = rne (F / real qF)"
  define n where "n = nat \<lfloor>Y\<rfloor>"
  define q where "q = ulp_of n"
  define k where "k = rne (Y / real q)"
  note fixed = round_mag_fixed [OF assms(1) assms(3)]
  from fixed have eq: "real_of_int mF * real qF = F" and whole: "real NF = F"
    by (simp_all add: F_def NF_def qF_def mF_def)
  from assms have F0: "0 \<le> F" and FY: "F \<le> Y"
    by (simp_all add: Y_def F_def)
  have qpos: "0 < real q" "0 < real qF"
    by (simp_all add: q_def qF_def ulp_of_pos)
  from FY have "NF \<le> n"
    unfolding n_def NF_def by (intro nat_mono floor_mono)
  then have qle: "qF \<le> q"
    unfolding q_def qF_def by (rule ulp_of_mono)
  have key: "F \<le> real_of_int k * real q"
  proof (cases "q = qF")
    case True
    from eq True qpos have "real_of_int mF = F / real q"
      by (simp add: field_simps)
    also from FY qpos have "F / real q \<le> Y / real q"
      by (simp add: divide_right_mono)
    finally have "mF \<le> k"
      unfolding k_def by (rule rne_ge)
    then have "real_of_int mF * real q \<le> real_of_int k * real q"
      using qpos by (simp add: mult_right_mono)
    with eq True show ?thesis by simp
  next
    case False
    with qle have "qF < q" by simp
    then have step: "2 * qF \<le> q"
      unfolding q_def qF_def by (rule ulp_of_step)
    with ulp_of_pos [of NF] have "1 < q"
      by (simp add: qF_def)
    then have "2 ^ 23 * q \<le> n"
      unfolding q_def by (rule ulp_of_lower)
    then have "real (2 ^ 23 * q) \<le> real n"
      by (simp only: of_nat_le_iff)
    moreover from F0 FY have "real n \<le> Y"
      unfolding n_def by simp
    ultimately have "2 ^ 23 * real q \<le> Y"
      by simp
    with qpos have "real_of_int (2 ^ 23) \<le> Y / real q"
      by (simp add: field_simps)
    then have "2 ^ 23 \<le> k"
      unfolding k_def by (rule rne_ge)
    then have "real_of_int (2 ^ 23) \<le> real_of_int k"
      by (simp only: of_int_le_iff)
    then have "2 ^ 23 \<le> real_of_int k"
      by simp
    then have low: "2 ^ 23 * real q \<le> real_of_int k * real q"
      using qpos by (simp add: mult_right_mono)
    from ulp_of_upper [of NF] have "NF < 2 ^ 24 * qF"
      by (simp add: qF_def)
    with step have "NF \<le> 2 ^ 23 * q"
      by simp
    then have "real NF \<le> real (2 ^ 23 * q)"
      by (simp only: of_nat_le_iff)
    with low whole show ?thesis
      by simp
  qed
  show ?thesis
  proof (cases "real_of_int k * real q \<ge> 2 ^ 277")
    case True
    then have "round_mag y = PInf"
      unfolding round_mag_def Let_def Y_def [symmetric] n_def [symmetric] q_def [symmetric]
        k_def [symmetric]
      by simp
    then show ?thesis by simp
  next
    case False
    then have "round_mag y = Fin (real_of_int k * real q / 2 ^ 149)"
      unfolding round_mag_def Let_def Y_def [symmetric] n_def [symmetric] q_def [symmetric]
        k_def [symmetric]
      by simp
    moreover from key have "f \<le> real_of_int k * real q / 2 ^ 149"
      by (simp add: F_def field_simps)
    ultimately show ?thesis
      by simp
  qed
qed


text \<open>Rounding keeps the sign.\<close>

lemma round32_nonneg: "0 \<le> y \<Longrightarrow> fge (round32 y) (Fin 0)"
  by (simp add: round32_def round_mag_nonneg)

lemma round32_nonpos: "y \<le> 0 \<Longrightarrow> fge (Fin 0) (round32 y)"
  by (cases "y = 0") (simp_all add: round32_def round_mag_zero round_mag_nonneg fneg_nonpos)

lemma fhalf_nonneg: "fge b (Fin 0) \<Longrightarrow> fge (fhalf b) (Fin 0)"
  by (cases b) (simp_all add: round32_nonneg)

lemma fhalf_nonpos: "fge (Fin 0) b \<Longrightarrow> fge (Fin 0) (fhalf b)"
  by (cases b) (simp_all add: round32_nonpos)

lemma below_nonpos_not_above_nonneg:
  "flt e l \<Longrightarrow> fge (Fin 0) l \<Longrightarrow> fge h (Fin 0) \<Longrightarrow> \<not> fge e h"
  by (cases e; cases l; cases h) auto

lemma not_above_nonpos_below_nonneg:
  "\<not> fge e h \<Longrightarrow> e \<noteq> NaN \<Longrightarrow> fge (Fin 0) h \<Longrightarrow> fge l (Fin 0) \<Longrightarrow> flt e l"
  by (cases e; cases l; cases h) auto

lemma fneg_below: "fge d (Fin 0) \<Longrightarrow> 0 \<le> e \<Longrightarrow> fge (Fin e) (fneg d)"
  by (cases d) auto

lemma fneg_swap: "fge d (Fin (- e)) \<Longrightarrow> fge (Fin e) (fneg d)"
  by (cases d) auto

lemma fneg_fixed: "fneg d = Fin e \<Longrightarrow> d = Fin (- e)"
  by (cases d) auto

text \<open>
  A number \<open>e\<close> of the format (one that rounding leaves alone) that is at least \<open>x\<close>
  is at least the rounded \<open>x\<close>.
\<close>

lemma round32_upper:
  assumes "round32 e = Fin e" and "x \<le> e"
  shows "fge (Fin e) (round32 x)"
proof (cases "0 \<le> x")
  case True
  with assms(2) have "0 \<le> e" by simp
  with assms(1) True have "round_mag e = Fin e" "round32 x = round_mag x"
    by (simp_all add: round32_def)
  with round_mag_upper [OF True assms(2)] show ?thesis by simp
next
  case False
  then have neg: "round32 x = fneg (round_mag (- x))"
    by (simp add: round32_def)
  from False have pos: "fge (round_mag (- x)) (Fin 0)"
    by (simp add: round_mag_nonneg)
  show ?thesis
  proof (cases "0 \<le> e")
    case True
    with pos neg show ?thesis by (simp add: fneg_below)
  next
    case e: False
    with assms(1) have "fneg (round_mag (- e)) = Fin e"
      by (simp add: round32_def)
    then have "round_mag (- e) = Fin (- e)"
      by (rule fneg_fixed)
    moreover from e have "0 \<le> - e" by simp
    moreover from assms(2) have "- e \<le> - x" by simp
    ultimately have "fge (round_mag (- x)) (Fin (- e))"
      by (intro round_mag_lower)
    with neg show ?thesis by (simp add: fneg_swap)
  qed
qed

text \<open>
  Halving a number of the format whose magnitude is at least \<^verbatim>\<open>2^(-125)\<close> is exact.
\<close>

lemma round_mag_half_exact:
  assumes "round_mag b = Fin b" and "1 / 2 ^ 125 \<le> b"
  shows "round_mag (b / 2) = Fin (b / 2)"
proof -
  define B where "B = b * 2 ^ 149"
  define NB where "NB = nat \<lfloor>B\<rfloor>"
  define qh where "qh = ulp_of (NB div 2)"
  define m where "m = rne (B / real (ulp_of NB))"
  have tiny: "(0::real) \<le> 1 / 2 ^ 125"
    by simp
  from tiny assms(2) have b0: "0 \<le> b"
    by (rule order_trans)
  note fixed = round_mag_fixed [OF b0 assms(1)]
  from assms(2) have "2 ^ 24 \<le> B"
    by (simp add: B_def field_simps)
  moreover from fixed have whole: "real NB = B" and small: "B < 2 ^ 277"
    by (simp_all add: B_def NB_def)
  ultimately have "real (2 ^ 24) \<le> real NB"
    by simp
  then have "\<not> NB < 2 ^ 24"
    by (simp only: of_nat_le_iff)
  then have q: "ulp_of NB = 2 * qh"
    by (simp add: ulp_of.simps [of NB] qh_def)
  from fixed have eq: "real_of_int m * real (ulp_of NB) = B"
    by (simp add: B_def NB_def m_def)
  with q have half: "B / 2 = real_of_int m * real qh"
    by simp
  from eq q whole have "real NB = real_of_int (2 * (m * int qh))"
    by simp
  then have "int NB = 2 * (m * int qh)"
    by linarith
  then have "int (NB div 2) = m * int qh"
    by (simp add: zdiv_int)
  then have halfN: "real (NB div 2) = B / 2"
    using half by (metis of_int_mult of_int_of_nat_eq)
  have "0 \<le> B / 2"
    using b0 by (simp add: B_def)
  with halfN have "nat \<lfloor>B / 2\<rfloor> = NB div 2"
    by (metis floor_of_nat nat_int)
  then have spacing: "ulp_of (nat \<lfloor>b / 2 * 2 ^ 149\<rfloor>) = qh"
    by (simp add: B_def qh_def)
  have qpos: "0 < real qh"
    by (simp add: qh_def ulp_of_pos)
  with half have "b / 2 * 2 ^ 149 / real qh = real_of_int m"
    by (simp add: B_def field_simps)
  then have "rne (b / 2 * 2 ^ 149 / real qh) = m"
    by (simp only: rne_of_int)
  with half small spacing show ?thesis
    unfolding round_mag_def Let_def
    by (simp add: B_def)
qed

lemma round32_half_exact:
  assumes "round32 b = Fin b" and "1 / 2 ^ 125 \<le> \<bar>b\<bar>"
  shows "round32 (b / 2) = Fin (b / 2)"
proof (cases "b < 0")
  case False
  with assms have "round_mag b = Fin b" "1 / 2 ^ 125 \<le> b"
    by (simp_all add: round32_def)
  then have "round_mag (b / 2) = Fin (b / 2)"
    by (rule round_mag_half_exact)
  with False show ?thesis
    by (simp add: round32_def)
next
  case True
  with assms(1) have "fneg (round_mag (- b)) = Fin b"
    by (simp add: round32_def)
  then have "round_mag (- b) = Fin (- b)"
    by (rule fneg_fixed)
  moreover from True assms(2) have "1 / 2 ^ 125 \<le> - b"
    by simp
  ultimately have "round_mag (- b / 2) = Fin (- b / 2)"
    by (rule round_mag_half_exact)
  with True show ?thesis
    by (simp add: round32_def)
qed


text \<open>Rounding is symmetric, and so are the two thresholds of the control law.\<close>

lemma round32_minus: "round32 (- y) = fneg (round32 y)"
proof (cases "y = 0")
  case True
  then show ?thesis by (simp add: round32_def round_mag_zero)
next
  case False
  show ?thesis
  proof (cases "y < 0")
    case True
    then show ?thesis by (cases "round_mag (- y)") (simp_all add: round32_def)
  next
    case pos: False
    with False show ?thesis by (simp add: round32_def)
  qed
qed

lemma fhalf_fneg: "fhalf (fneg d) = fneg (fhalf d)"
proof (cases d)
  case (Fin x)
  have "round32 (- 1 * x / 2) = round32 (- (x / 2))" by simp
  with Fin show ?thesis by (simp only: fneg.simps fhalf.simps round32_minus)
qed simp_all

text \<open>
  For a band of the format with a magnitude of \<^verbatim>\<open>2^(-125)\<close> or more, the two
  thresholds are the exact halves.
\<close>

lemma fhalf_exact:
  assumes "round32 b = Fin b" and "1 / 2 ^ 125 \<le> \<bar>b\<bar>"
  shows "fhalf (Fin b) = Fin (b / 2)" and "fhalf (fneg (Fin b)) = Fin (- (b / 2))"
proof -
  from assms show half: "fhalf (Fin b) = Fin (b / 2)"
    by (simp add: round32_half_exact)
  then show "fhalf (fneg (Fin b)) = Fin (- (b / 2))"
    by (simp only: fhalf_fneg) simp
qed

text \<open>
  An error of the format that is at least the exact half of the band passes the first
  test of the control law, whatever the band is.
\<close>

lemma exact_half_first_test:
  assumes "round32 e = Fin e" and "b / 2 \<le> e"
  shows "fge (Fin e) (fhalf (Fin b))"
  using round32_upper [OF assms] by simp

text \<open>The arithmetic at some values: exact results, ties, and the conversion of the clock.\<close>

lemma round32_samples:
  "round32 (- 2) = Fin (- 2)"
  "round32 (- 4.5) = Fin (- 4.5)"
  "round32 2.4 = Fin (5033165 / 2 ^ 21)"
  "round32 (1 / 2 ^ 150) = Fin 0"
  "round32 (3 / 2 ^ 150) = Fin (2 / 2 ^ 149)"
  "round32 (39 / 2 ^ 150) = Fin (20 / 2 ^ 149)"
  "round32 (2 ^ 128) = PInf"
  by (simp_all add: round32_def round_mag_def Let_def, simp_all add: ulp_of.simps,
      simp_all add: rne_def Let_def)

text \<open>
  \<^verbatim>\<open>initialize()\<close> is written with the literal 4.8 as the source has it; the compiler
  stores the nearest number of the format. The half of the band is the same for both.
\<close>

lemma default_band_half:
  "round32 4.8 = Fin (5033165 / 2 ^ 20)"
  "fhalf (Fin 4.8) = Fin (5033165 / 2 ^ 21)"
  "fhalf (Fin (5033165 / 2 ^ 20)) = Fin (5033165 / 2 ^ 21)"
  by (simp_all add: round32_def round_mag_def Let_def, simp_all add: ulp_of.simps,
      simp_all add: rne_def Let_def)

lemma of_millis_samples:
  "of_millis 1000 = Fin 1000"
  "of_millis 16777216 = Fin 16777216"
  "of_millis 16777217 = Fin 16777216"
  "of_millis 16777219 = Fin 16777220"
  by (simp_all add: of_millis_def round32_def round_mag_def Let_def,
      simp_all add: ulp_of.simps, simp_all add: rne_def Let_def)

section \<open>Facts about the program\<close>

lemma set_dac_inj: "set_dac c s = set_dac d s \<Longrightarrow> c = d"
  by (auto simp: set_dac_def dest: arg_cong [where f = dac_commands])

lemma commanded_set_dac: "commanded (set_dac c s) = Some c"
  by (simp add: commanded_def set_dac_def)

lemma issued_set_dac: "issued s (set_dac c s) = [c]"
  by (simp add: issued_def set_dac_def)

lemma issued_same: "issued s s = []"
  by (simp add: issued_def)

lemma issued_control:
  "issued s (control s) =
     (if fge (error s) (fhalf (band s)) then [- 4095]
      else if flt (error s) (fhalf (fneg (band s))) then [0] else [])"
  by (simp add: control_def issued_set_dac issued_same)

lemma dac_commands_control:
  "dac_commands (control s) =
     dac_commands s @
       (if fge (error s) (fhalf (band s)) then [- 4095]
        else if flt (error s) (fhalf (fneg (band s))) then [0] else [])"
  by (simp add: control_def set_dac_def)

lemma control_keeps_flag: "control_flag (control s) = control_flag s"
  by (simp add: control_def set_dac_def)

text \<open>
  An error of the format that is at least the exact half of the band makes
  \<^verbatim>\<open>control()\<close> command -4095: it is at least the half the program computes.
\<close>

lemma control_above_exact_half:
  assumes "error s = Fin e" and "band s = Fin b" and "round32 e = Fin e" and "b / 2 \<le> e"
  shows "control s = set_dac (- 4095) s"
  using exact_half_first_test [OF assms(3,4)] assms(1,2)
  by (simp add: control_def)

text \<open>
  For a band of the format with a magnitude of \<^verbatim>\<open>2^(-125)\<close> or more, the dead zone
  and the zone of the command 0 are the ones the exact halves give.
\<close>

lemma control_inside_exact_band:
  assumes "error s = Fin e" and "band s = Fin b"
    and "round32 b = Fin b" and "1 / 2 ^ 125 \<le> \<bar>b\<bar>"
    and "- (b / 2) \<le> e" and "e < b / 2"
  shows "control s = s"
  using assms(1,2,5,6) fhalf_exact [OF assms(3,4)]
  by (simp add: control_def)

lemma control_below_exact_band:
  assumes "error s = Fin e" and "band s = Fin b"
    and "round32 b = Fin b" and "1 / 2 ^ 125 \<le> \<bar>b\<bar>"
    and "e < - (b / 2)" and "0 \<le> b"
  shows "control s = set_dac 0 s"
  using assms(1,2,5,6) fhalf_exact [OF assms(3,4)]
  by (simp add: control_def)

text \<open>
  With a band that is not negative, an error below \<^verbatim>\<open>-1*band/2\<close> is below
  \<^verbatim>\<open>band/2\<close> too, so the first test of \<^verbatim>\<open>control()\<close> fails.
\<close>

lemma nonneg_band_first_test_fails:
  assumes "fge b (Fin 0)" and "flt e (fhalf (fneg b))"
  shows "\<not> fge e (fhalf b)"
  using assms below_nonpos_not_above_nonneg [of e "fhalf (fneg b)" "fhalf b"]
  by (simp add: fhalf_nonneg fhalf_nonpos fneg_nonpos)

text \<open>
  With a band that is zero or negative there is no dead zone: an error that fails the
  first test passes the second.
\<close>

lemma nonpos_band_second_test:
  assumes "fge (Fin 0) b" and "e \<noteq> NaN" and "\<not> fge e (fhalf b)"
  shows "flt e (fhalf (fneg b))"
  using assms not_above_nonpos_below_nonneg [of e "fhalf b" "fhalf (fneg b)"]
  by (simp add: fhalf_nonneg fhalf_nonpos fneg_nonneg)

text \<open>The interrupt sets the flag, and a second or third one changes nothing more.\<close>

lemma isr_repeated: "(ISR_TIMER1_COMPA ^^ Suc k) x = x\<lparr>control_flag := True\<rparr>"
  by (induction k) (simp_all add: ISR_TIMER1_COMPA_def)

text \<open>
  \<^verbatim>\<open>read_temperature()\<close> writes the reading and the error that belongs to it in one
  call, and the control law, when \<^verbatim>\<open>loop()\<close> invokes it, runs on such a state.
\<close>

lemma read_temperature_pairs_error:
  "error (read_temperature reading now s) =
     fsub (temperature (read_temperature reading now s))
          (setpoint (read_temperature reading now s))"
  by (simp add: read_temperature_def)

lemma control_runs_on_paired_error:
  assumes "control_flag s" and "mode s = CLOSED_LOOP"
  shows "\<exists>m. control_service reading now s = (control m)\<lparr>control_flag := False\<rparr> \<and>
             temperature m = reading \<and> setpoint m = setpoint s \<and>
             error m = fsub (temperature m) (setpoint m)"
  using assms by (auto simp: control_service_def read_temperature_def)

text \<open>\<^verbatim>\<open>initialize()\<close> takes a reading too, and leaves \<^verbatim>\<open>error\<close> as it was.\<close>

lemma initialize_keeps_error:
  "error (initialize reading now1 now2 s) = error s \<and>
   temperature (initialize reading now1 now2 s) = reading"
  by (simp add: initialize_def set_setpoint_def set_parameters_def set_period_def set_dac_def)

text \<open>What the modelled serial functions leave alone.\<close>

lemma execute_frame:
  "control_flag (execute c s) = control_flag s \<and>
   rtd_conversions (execute c s) = rtd_conversions s \<and>
   newData (execute c s) = newData s"
  by (cases c)
     (simp_all add: set_setpoint_def set_parameters_def set_period_def set_dac_def)

lemma parseData_model_frame:
  "control_flag (parseData_model grammar s) = control_flag s \<and>
   rtd_conversions (parseData_model grammar s) = rtd_conversions s"
  by (simp add: parseData_model_def execute_frame split: option.split)

lemma receive_data_model_frame:
  "control_flag (receive_data_model bytes s) = control_flag s \<and>
   rtd_conversions (receive_data_model bytes s) = rtd_conversions s \<and>
   dac_commands (receive_data_model bytes s) = dac_commands s"
  by (induction bytes arbitrary: s) simp_all

text \<open>The tests of the control law in the sample states.\<close>

lemma too_warm_tests:
  "fge (error too_warm) (fhalf (band too_warm))"
  by (simp add: too_warm_def running_def power_on_def round32_def round_mag_def Let_def,
      simp add: ulp_of.simps, simp add: rne_def Let_def)

lemma too_cold_tests:
  "flt (error too_cold) (fhalf (fneg (band too_cold)))"
  "\<not> fge (error too_cold) (fhalf (band too_cold))"
  by (simp_all add: too_cold_def running_def power_on_def round32_def round_mag_def Let_def,
      simp_all add: ulp_of.simps, simp_all add: rne_def Let_def)


lemma negative_band_tests:
  "fge (error negative_band) (fhalf (band negative_band))"
  "flt (error negative_band) (fhalf (fneg (band negative_band)))"
  "fge (Fin 0) (band negative_band)"
  "error negative_band \<noteq> NaN"
  by (simp_all add: negative_band_def running_def power_on_def round32_def round_mag_def
        Let_def,
      simp_all add: ulp_of.simps, simp_all add: rne_def Let_def)

text \<open>
  The control law at bands of a few units of the smallest subnormal number, where the
  halves the program computes are rounded: the half of one unit is zero, the half of
  three units is two units, the half of thirty-nine units is twenty units.
\<close>

lemma tiny_band_examples:
  "issued (tiny_band 1 0) (control (tiny_band 1 0)) = [- 4095]"
  "issued (tiny_band 3 (- 2)) (control (tiny_band 3 (- 2))) = []"
  "issued (tiny_band (- 39) (- 20)) (control (tiny_band (- 39) (- 20))) = [- 4095]"
  by (simp_all add: issued_control tiny_band_def running_def power_on_def round32_def
        round_mag_def Let_def,
      simp_all add: ulp_of.simps, simp_all add: rne_def Let_def)

text \<open>
  A measurement whose error is rounded: with the setpoint 0.3 and the band 39.4 (as
  binary32 numbers) a reading of 20 gives the error 19.7000008, which is the half of
  the band as the program computes it, and the command is -4095; the exact difference
  lies below the exact half.
\<close>

lemma wide_band_example:
  "error (control_service (Fin 20) 1000 wide_band) = Fin (5164237 / 2 ^ 18)"
  "fhalf (band wide_band) = Fin (5164237 / 2 ^ 18)"
  "issued wide_band (control_service (Fin 20) 1000 wide_band) = [- 4095]"
  "issued wide_band (control_local (read_temperature (Fin 20) 1000 wide_band)) = [- 4095]"
  "(20 :: real) - 5033165 / 2 ^ 24 < 5164237 / 2 ^ 17 / 2"
  by (simp_all add: control_service_def read_temperature_def issued_def control_def
        control_local_def set_dac_def wide_band_def running_def power_on_def round32_def round_mag_def Let_def,
      simp_all add: ulp_of.simps, simp_all add: rne_def Let_def)

text \<open>One measure-and-decide cycle of the control service.\<close>

lemma control_service_cycle:
  assumes "control_flag q"
  shows "let m = (read_temperature reading now q)
                   \<lparr>dt := fsub (of_millis now) (time_control q),
                    time_control := of_millis now\<rparr>;
             s' = control_service reading now q
         in s' = (if mode q = CLOSED_LOOP then control m else m)\<lparr>control_flag := False\<rparr> \<and>
            rtd_conversions s' = Suc (rtd_conversions q) \<and>
            temperature s' = reading \<and>
            time_recent s' = of_millis now \<and>
            dt s' = fsub (of_millis now) (time_control q) \<and>
            time_control s' = of_millis now \<and>
            issued q s' = (if mode q = CLOSED_LOOP then issued m (control m) else []) \<and>
            length (issued q s') \<le> 1 \<and>
            control_flag s' = False \<and>
            control_service reading' now' s' = s'"
proof -
  define m where "m = (read_temperature reading now q)
      \<lparr>dt := fsub (of_millis now) (time_control q), time_control := of_millis now\<rparr>"
  define s' where "s' = control_service reading now q"
  have m_fields: "mode m = mode q" "dac_commands m = dac_commands q"
      "rtd_conversions m = Suc (rtd_conversions q)" "temperature m = reading"
      "time_recent m = of_millis now" "dt m = fsub (of_millis now) (time_control q)"
      "time_control m = of_millis now"
    by (simp_all add: m_def read_temperature_def)
  from assms have result:
    "s' = (if mode q = CLOSED_LOOP then control m else m)\<lparr>control_flag := False\<rparr>"
    by (simp add: s'_def control_service_def m_def Let_def) (simp add: read_temperature_def)
  have ctl: "rtd_conversions (control m) = rtd_conversions m"
      "temperature (control m) = temperature m" "time_recent (control m) = time_recent m"
      "dt (control m) = dt m" "time_control (control m) = time_control m"
    by (simp_all add: control_def set_dac_def)
  have fields: "rtd_conversions s' = Suc (rtd_conversions q)" "temperature s' = reading"
      "time_recent s' = of_millis now" "dt s' = fsub (of_millis now) (time_control q)"
      "time_control s' = of_millis now" "control_flag s' = False"
    by (simp_all add: result ctl m_fields)
  have cmds: "issued q s' = (if mode q = CLOSED_LOOP then issued m (control m) else [])"
    by (simp add: result issued_def m_fields)
  have "length (issued m (control m)) \<le> 1"
    by (simp add: issued_control)
  with cmds have one: "length (issued q s') \<le> 1"
    by simp
  from fields have idle: "control_service reading' now' s' = s'"
    by (simp add: control_service_def)
  from result fields cmds one idle show ?thesis
    unfolding m_def [symmetric] s'_def [symmetric] Let_def
    by simp
qed

section \<open>The control law: claims\<close>

text \<open>
  In the statements below \<^verbatim>\<open>band/2\<close> and \<^verbatim>\<open>-band/2\<close> are the two numbers the
  program computes, \<open>fhalf (band s)\<close> and \<open>fhalf (fneg (band s))\<close>; the second is
  the first negated (\<open>fhalf_fneg\<close>). For a band with a magnitude of \<^verbatim>\<open>2^(-125)\<close>
  or more they are the exact halves (\<open>fhalf_exact\<close>); for a smaller band the
  half is rounded to a whole number of units of \<^verbatim>\<open>2^(-149)\<close>
  (\<open>tiny_band_examples\<close>).
\<close>

text \<open>
  C1. For every error and band, if \<^verbatim>\<open>error >= band/2\<close> then \<^verbatim>\<open>control()\<close> commands
  the actuator to the full-scale negative code -4095: the call is \<^verbatim>\<open>set_dac(-4095)\<close>,
  and -4095 is what the actuator holds afterwards. (With the exact half in the place of
  the computed one the same holds: \<open>control_above_exact_half\<close>.)
\<close>

theorem control_above_band:
  "fge (error s) (fhalf (band s)) \<Longrightarrow>
     control s = set_dac (- 4095) s \<and> commanded (control s) = Some (- 4095)"
  by (simp add: control_def commanded_set_dac)

theorem control_above_band_witness:
  "fge (error too_warm) (fhalf (band too_warm)) \<and>
   (control too_warm = set_dac (- 4095) too_warm \<and>
    commanded (control too_warm) = Some (- 4095))"
proof -
  have above: "fge (error too_warm) (fhalf (band too_warm))"
    by (rule too_warm_tests)
  from above control_above_band [OF above] show ?thesis
    by (rule conjI)
qed

text \<open>
  C2, as stated: for every error and band, if \<^verbatim>\<open>error < -band/2\<close> then \<^verbatim>\<open>control()\<close>
  commands the actuator to the code 0. This fails for a negative band: with band = -4 and
  error = 0 the error is below \<^verbatim>\<open>-1*band/2\<close> = 2, but it is also at least
  \<^verbatim>\<open>band/2\<close> = -2, the first test of the \<^verbatim>\<open>if\<close> succeeds and the command is -4095.
\<close>

theorem control_below_band_counterexample:
  "flt (error negative_band) (fhalf (fneg (band negative_band))) \<and>
   control negative_band \<noteq> set_dac 0 negative_band \<and>
   commanded (control negative_band) = Some (- 4095)"
proof -
  have first: "fge (error negative_band) (fhalf (band negative_band))"
    by (rule negative_band_tests)
  have second: "flt (error negative_band) (fhalf (fneg (band negative_band)))"
    by (rule negative_band_tests)
  from first have cmd: "control negative_band = set_dac (- 4095) negative_band"
    by (simp add: control_def)
  have "set_dac (- 4095) negative_band \<noteq> set_dac 0 negative_band"
    using set_dac_inj [of "- 4095" negative_band 0] by auto
  with second cmd show ?thesis
    by (simp add: commanded_set_dac)
qed

text \<open>
  C2, amended: for every error and band, if \<^verbatim>\<open>error < -band/2\<close> and
  \<^verbatim>\<open>error >= band/2\<close> does not hold, then \<^verbatim>\<open>control()\<close> commands the actuator to
  the code 0. The second condition holds for every band that is not negative
  (\<open>nonneg_band_first_test_fails\<close>). (With the exact half and a band that is
  not negative and not smaller than \<^verbatim>\<open>2^(-125)\<close>: \<open>control_below_exact_band\<close>.)
\<close>

theorem control_below_band:
  "flt (error s) (fhalf (fneg (band s))) \<Longrightarrow> \<not> fge (error s) (fhalf (band s)) \<Longrightarrow>
     control s = set_dac 0 s \<and> commanded (control s) = Some 0"
  by (simp add: control_def commanded_set_dac)

theorem control_below_band_witness:
  "(flt (error too_cold) (fhalf (fneg (band too_cold))) \<and>
    \<not> fge (error too_cold) (fhalf (band too_cold))) \<and>
   (control too_cold = set_dac 0 too_cold \<and> commanded (control too_cold) = Some 0)"
proof -
  have below: "flt (error too_cold) (fhalf (fneg (band too_cold)))"
    by (rule too_cold_tests)
  have not_above: "\<not> fge (error too_cold) (fhalf (band too_cold))"
    by (rule too_cold_tests)
  from below not_above have "flt (error too_cold) (fhalf (fneg (band too_cold))) \<and>
      \<not> fge (error too_cold) (fhalf (band too_cold))"
    by (rule conjI)
  from this control_below_band [OF below not_above] show ?thesis
    by (rule conjI)
qed



text \<open>
  C8. For every band, zero and negative ones included, and every error,
  \<^verbatim>\<open>control()\<close> takes exactly one of three branches: it issues the one command -4095
  if \<^verbatim>\<open>error >= band/2\<close>, else the one command 0 if \<^verbatim>\<open>error < -1*band/2\<close>, else
  no command. Which one is fixed by error and band alone: two states that agree on
  these two issue the same command. For a band that is zero or negative the dead zone
  is empty: if the error is a number, the command is -4095 or 0. (\<open>control\<close> is a
  total function: the source has no loop and no operation that can trap.)
\<close>

theorem control_deterministic:
  assumes "error s' = error s" and "band s' = band s"
  shows "issued s (control s) =
           (if fge (error s) (fhalf (band s)) then [- 4095]
            else if flt (error s) (fhalf (fneg (band s))) then [0] else []) \<and>
         issued s' (control s') = issued s (control s) \<and>
         (control s = set_dac (- 4095) s \<and> issued s (control s) = [- 4095] \<or>
          control s = set_dac 0 s \<and> issued s (control s) = [0] \<or>
          control s = s \<and> issued s (control s) = []) \<and>
         (fge (Fin 0) (band s) \<longrightarrow> error s \<noteq> NaN \<longrightarrow>
            issued s (control s) =
              (if fge (error s) (fhalf (band s)) then [- 4095] else [0]))"
proof -
  have branch: "issued s (control s) =
      (if fge (error s) (fhalf (band s)) then [- 4095]
       else if flt (error s) (fhalf (fneg (band s))) then [0] else [])"
    by (rule issued_control)
  from assms have same: "issued s' (control s') = issued s (control s)"
    by (simp add: issued_control)
  have one: "control s = set_dac (- 4095) s \<and> issued s (control s) = [- 4095] \<or>
      control s = set_dac 0 s \<and> issued s (control s) = [0] \<or>
      control s = s \<and> issued s (control s) = []"
    by (simp add: issued_control) (simp add: control_def)
  have collapse: "issued s (control s) =
      (if fge (error s) (fhalf (band s)) then [- 4095] else [0])"
    if "fge (Fin 0) (band s)" and "error s \<noteq> NaN"
    using that nonpos_band_second_test [of "band s" "error s"]
    by (auto simp: issued_control)
  from branch same one collapse show ?thesis
    by blast
qed

theorem control_deterministic_witness:
  "(error negative_band_other = error negative_band \<and>
    band negative_band_other = band negative_band \<and>
    fge (Fin 0) (band negative_band) \<and> error negative_band \<noteq> NaN) \<and>
   issued negative_band (control negative_band) = [- 4095] \<and>
   issued negative_band_other (control negative_band_other) = [- 4095] \<and>
   control negative_band = set_dac (- 4095) negative_band"
proof -
  have same_error: "error negative_band_other = error negative_band"
    by (simp add: negative_band_other_def)
  have same_band: "band negative_band_other = band negative_band"
    by (simp add: negative_band_other_def)
  have nonpos: "fge (Fin 0) (band negative_band)"
    by (rule negative_band_tests)
  have number: "error negative_band \<noteq> NaN"
    by (rule negative_band_tests)
  have first: "fge (error negative_band) (fhalf (band negative_band))"
    by (rule negative_band_tests)
  note row = control_deterministic [OF same_error same_band]
  from row nonpos number first
  have here: "issued negative_band (control negative_band) = [- 4095]"
    by simp
  from row here
  have there: "issued negative_band_other (control negative_band_other) = [- 4095]"
    by simp
  from row here have call: "control negative_band = set_dac (- 4095) negative_band"
    by auto
  from same_error same_band nonpos number here there call show ?thesis
    by simp
qed

text \<open>
  C10. The \<^verbatim>\<open>control()\<close> of \<^verbatim>\<open>PID.ino\<close>, which tests the global \<^verbatim>\<open>error\<close>, and
  the \<^verbatim>\<open>control()\<close> of \<^verbatim>\<open>control.ino\<close>, which tests a local
  \<^verbatim>\<open>error = temperature - setpoint\<close>, do the same in every state in which the global
  \<^verbatim>\<open>error\<close> equals \<^verbatim>\<open>temperature - setpoint\<close>, the difference being the rounded
  one that both compute. (The local is a \<^verbatim>\<open>float\<close> and the global a \<^verbatim>\<open>double\<close>,
  which on the AVR are one format.) The states that \<^verbatim>\<open>read_temperature()\<close> leaves
  are such states, also when the difference is rounded.
\<close>

theorem control_local_agrees:
  "error s = fsub (temperature s) (setpoint s) \<Longrightarrow> control_local s = control s"
  by (simp add: control_local_def control_def)

theorem control_local_agrees_witness:
  "error (read_temperature (Fin 20) 1000 wide_band) =
     fsub (temperature (read_temperature (Fin 20) 1000 wide_band))
          (setpoint (read_temperature (Fin 20) 1000 wide_band)) \<and>
   control_local (read_temperature (Fin 20) 1000 wide_band) =
     control (read_temperature (Fin 20) 1000 wide_band)"
proof -
  have paired: "error (read_temperature (Fin 20) 1000 wide_band) =
      fsub (temperature (read_temperature (Fin 20) 1000 wide_band))
           (setpoint (read_temperature (Fin 20) 1000 wide_band))"
    by (rule read_temperature_pairs_error)
  from paired control_local_agrees [OF paired] show ?thesis
    by (rule conjI)
qed

section \<open>Start-up\<close>

text \<open>
  C9. After \<^verbatim>\<open>setup()\<close> has run on the freshly initialised globals, the setpoint is
  24.50, the band 4.8, the integral time 15.16, the derivative time 23.42, the period
  350 (milliseconds), the actuator was last commanded to 0, and the mode is
  \<^verbatim>\<open>OPEN_LOOP\<close>; whatever the first reading and the clock are.
\<close>

theorem startup_defaults:
  "setpoint (setup_sketch reading now1 now2 power_on) = Fin 24.50 \<and>
   band (setup_sketch reading now1 now2 power_on) = Fin 4.8 \<and>
   t_integral (setup_sketch reading now1 now2 power_on) = Fin 15.16 \<and>
   t_derivative (setup_sketch reading now1 now2 power_on) = Fin 23.42 \<and>
   period (setup_sketch reading now1 now2 power_on) = 350 \<and>
   commanded (setup_sketch reading now1 now2 power_on) = Some 0 \<and>
   mode (setup_sketch reading now1 now2 power_on) = OPEN_LOOP"
  by (simp add: setup_sketch_def initialize_def set_setpoint_def set_parameters_def
      set_period_def set_dac_def commanded_def power_on_def)

text \<open>
  C5. After every write to \<^verbatim>\<open>temperature\<close> by a measurement, \<^verbatim>\<open>error\<close> should
  equal \<^verbatim>\<open>temperature - setpoint\<close> before anything can read the new temperature.
  \<^verbatim>\<open>read_temperature()\<close> does that (\<open>read_temperature_pairs_error\<close>), and so the
  control law never sees an unpaired error (\<open>control_runs_on_paired_error\<close>). The
  preliminary reading of \<^verbatim>\<open>initialize()\<close> does not: with a first reading of 20
  degrees the program leaves \<^verbatim>\<open>setup()\<close> with temperature 20, setpoint 24.5 and
  error 0, where \<^verbatim>\<open>temperature - setpoint\<close> is -4.5. It stays so until the first
  tick is serviced.
\<close>

theorem startup_error_not_paired:
  "temperature (setup_sketch (Fin 20) 5 5 power_on) = Fin 20 \<and>
   setpoint (setup_sketch (Fin 20) 5 5 power_on) = Fin 24.50 \<and>
   error (setup_sketch (Fin 20) 5 5 power_on) = Fin 0 \<and>
   fsub (temperature (setup_sketch (Fin 20) 5 5 power_on))
        (setpoint (setup_sketch (Fin 20) 5 5 power_on)) = Fin (- 4.5) \<and>
   error (setup_sketch (Fin 20) 5 5 power_on) \<noteq>
     fsub (temperature (setup_sketch (Fin 20) 5 5 power_on))
          (setpoint (setup_sketch (Fin 20) 5 5 power_on))"
  by (simp add: setup_sketch_def initialize_def set_setpoint_def set_parameters_def
        set_period_def set_dac_def power_on_def round32_def round_mag_def Let_def,
      simp add: ulp_of.simps, simp add: rne_def Let_def)

section \<open>Interrupt and main loop\<close>

text \<open>
  C6. The timer interrupt handler sets \<^verbatim>\<open>control_flag\<close> to true and does nothing
  else: every other global is as before, no conversion is made and no actuator command
  issued. Nothing else sets the flag, and only the control service clears it:
  \<^verbatim>\<open>control()\<close>, \<^verbatim>\<open>read_temperature()\<close> and \<^verbatim>\<open>initialize()\<close> leave it as it is;
  so do the serial intake, whatever bytes arrive, and the dispatcher, whatever the
  line is, and with them the dispatch phase of \<^verbatim>\<open>loop()\<close>; the control service ends
  with the flag cleared. A whole pass of \<^verbatim>\<open>loop()\<close> therefore ends with the flag
  cleared, and it has made a conversion, that is serviced a tick, exactly if it was
  entered with the flag set.
\<close>

theorem isr_sets_flag_only:
  "ISR_TIMER1_COMPA s = s\<lparr>control_flag := True\<rparr> \<and>
   control_flag (ISR_TIMER1_COMPA s) \<and>
   rtd_conversions (ISR_TIMER1_COMPA s) = rtd_conversions s \<and>
   dac_commands (ISR_TIMER1_COMPA s) = dac_commands s \<and>
   received_data (ISR_TIMER1_COMPA s) = received_data s \<and>
   temp_data (ISR_TIMER1_COMPA s) = temp_data s \<and>
   newData (ISR_TIMER1_COMPA s) = newData s \<and>
   control_flag (control s) = control_flag s \<and>
   control_flag (read_temperature reading now s) = control_flag s \<and>
   control_flag (initialize reading now1 now2 s) = control_flag s \<and>
   control_flag (receive_data_model bytes s) = control_flag s \<and>
   control_flag (parseData_model grammar s) = control_flag s \<and>
   control_flag (command_dispatch (parseData_model grammar) s) = control_flag s \<and>
   control_flag (control_service reading now s) = False \<and>
   control_flag
     (loop (receive_data_model bytes) (parseData_model grammar) reading now s) = False \<and>
   rtd_conversions
     (loop (receive_data_model bytes) (parseData_model grammar) reading now s) =
     (if control_flag s then Suc (rtd_conversions s) else rtd_conversions s)"
proof -
  have isr: "ISR_TIMER1_COMPA s = s\<lparr>control_flag := True\<rparr>"
    by (simp add: ISR_TIMER1_COMPA_def)
  have src: "control_flag (control s) = control_flag s"
      "control_flag (read_temperature reading now s) = control_flag s"
      "control_flag (initialize reading now1 now2 s) = control_flag s"
    by (simp_all add: control_keeps_flag read_temperature_def initialize_def
        set_setpoint_def set_parameters_def set_period_def set_dac_def)
  have dispatch: "control_flag (command_dispatch (parseData_model grammar) t) = control_flag t"
      "rtd_conversions (command_dispatch (parseData_model grammar) t) = rtd_conversions t"
    for t
    by (simp_all add: command_dispatch_def parseData_model_frame Let_def)
  have service: "control_flag (control_service reading now t) = False"
      "rtd_conversions (control_service reading now t) =
         (if control_flag t then Suc (rtd_conversions t) else rtd_conversions t)"
    for t
    by (simp_all add: control_service_def read_temperature_def control_def set_dac_def
        Let_def)
  have pass: "loop (receive_data_model bytes) (parseData_model grammar) reading now s =
      control_service reading now
        (command_dispatch (parseData_model grammar) (receive_data_model bytes s))"
    by (simp add: loop_def Let_def)
  from isr src show ?thesis
    by (simp add: pass service dispatch receive_data_model_frame parseData_model_frame)
qed

text \<open>
  C4. A pass of \<^verbatim>\<open>loop()\<close> that finds \<^verbatim>\<open>control_flag\<close> set when it reaches the
  control service (\<open>q\<close> is the state then) does one measure-and-decide cycle: one
  conversion, \<^verbatim>\<open>dt\<close> and \<^verbatim>\<open>time_control\<close> updated from the new time stamp, the
  control law run once on the measured state \<open>m\<close> if the mode is \<^verbatim>\<open>CLOSED_LOOP\<close>
  and not at all otherwise, so at most one actuator command, and the flag cleared at
  the end. With the flag cleared, a control service that follows without a new tick
  does nothing. The flag is a boolean: after one or more ticks on any state \<open>x\<close> the
  flag is set, and the control service that follows does what it does after a single
  tick, which is one cycle: one conversion more than in \<open>x\<close>, at most one command,
  and the flag cleared.
\<close>

theorem loop_services_tick_once:
  assumes "control_flag (command_dispatch parseData (receive_data s))"
  shows "let q = command_dispatch parseData (receive_data s);
             m = (read_temperature reading now q)
                   \<lparr>dt := fsub (of_millis now) (time_control q),
                    time_control := of_millis now\<rparr>;
             s' = loop receive_data parseData reading now s
         in s' = (if mode q = CLOSED_LOOP then control m else m)\<lparr>control_flag := False\<rparr> \<and>
            rtd_conversions s' = Suc (rtd_conversions q) \<and>
            temperature s' = reading \<and>
            time_recent s' = of_millis now \<and>
            dt s' = fsub (of_millis now) (time_control q) \<and>
            time_control s' = of_millis now \<and>
            issued q s' = (if mode q = CLOSED_LOOP then issued m (control m) else []) \<and>
            length (issued q s') \<le> 1 \<and>
            control_flag s' = False \<and>
            control_service reading' now' s' = s' \<and>
            control_flag ((ISR_TIMER1_COMPA ^^ Suc k) x) \<and>
            control_service reading now ((ISR_TIMER1_COMPA ^^ Suc k) x) =
              control_service reading now (ISR_TIMER1_COMPA x) \<and>
            rtd_conversions (control_service reading now ((ISR_TIMER1_COMPA ^^ Suc k) x)) =
              Suc (rtd_conversions x) \<and>
            length (issued x (control_service reading now ((ISR_TIMER1_COMPA ^^ Suc k) x)))
              \<le> 1 \<and>
            control_flag (control_service reading now ((ISR_TIMER1_COMPA ^^ Suc k) x)) =
              False"
proof -
  have pass: "loop receive_data parseData reading now s =
      control_service reading now (command_dispatch parseData (receive_data s))"
    by (simp add: loop_def Let_def)
  note cycle = control_service_cycle [OF assms, where reading = reading and now = now
    and reading' = reading' and now' = now']
  define y where "y = x\<lparr>control_flag := True\<rparr>"
  have many: "(ISR_TIMER1_COMPA ^^ Suc k) x = y"
    by (simp only: isr_repeated y_def)
  have single: "ISR_TIMER1_COMPA x = y"
    by (simp add: ISR_TIMER1_COMPA_def y_def)
  have y_fields: "control_flag y" "rtd_conversions y = rtd_conversions x"
      "dac_commands y = dac_commands x"
    by (simp_all add: y_def)
  from y_fields(3) have y_issued: "issued x t = issued y t" for t
    by (simp add: issued_def)
  note tick = control_service_cycle [OF y_fields(1), where reading = reading and now = now
    and reading' = reading' and now' = now']
  from tick have "rtd_conversions (control_service reading now y) = Suc (rtd_conversions y)"
    and "length (issued y (control_service reading now y)) \<le> 1"
    and "control_flag (control_service reading now y) = False"
    unfolding Let_def by blast+
  then have after_ticks:
    "rtd_conversions (control_service reading now y) = Suc (rtd_conversions x)"
    "length (issued x (control_service reading now y)) \<le> 1"
    "control_flag (control_service reading now y) = False"
    by (simp_all add: y_fields(2) y_issued)
  from cycle y_fields(1) after_ticks show ?thesis
    unfolding many single pass Let_def by blast
qed

theorem loop_services_tick_once_witness:
  "control_flag
     (command_dispatch (set_setpoint (Fin 30))
        (line_arrives ((ISR_TIMER1_COMPA ^^ Suc 2) in_band))) \<and>
   (let q = command_dispatch (set_setpoint (Fin 30))
              (line_arrives ((ISR_TIMER1_COMPA ^^ Suc 2) in_band));
        m = (read_temperature (Fin 26) 1000 q)
              \<lparr>dt := fsub (of_millis 1000) (time_control q),
               time_control := of_millis 1000\<rparr>;
        s' = loop line_arrives (set_setpoint (Fin 30)) (Fin 26) 1000
               ((ISR_TIMER1_COMPA ^^ Suc 2) in_band)
    in s' = (if mode q = CLOSED_LOOP then control m else m)\<lparr>control_flag := False\<rparr> \<and>
       rtd_conversions s' = Suc (rtd_conversions q) \<and>
       temperature s' = Fin 26 \<and>
       time_recent s' = of_millis 1000 \<and>
       dt s' = fsub (of_millis 1000) (time_control q) \<and>
       time_control s' = of_millis 1000 \<and>
       issued q s' = (if mode q = CLOSED_LOOP then issued m (control m) else []) \<and>
       length (issued q s') \<le> 1 \<and>
       control_flag s' = False \<and>
       control_service (Fin 27) 1350 s' = s' \<and>
       control_flag ((ISR_TIMER1_COMPA ^^ Suc 2) in_band) \<and>
       control_service (Fin 26) 1000 ((ISR_TIMER1_COMPA ^^ Suc 2) in_band) =
         control_service (Fin 26) 1000 (ISR_TIMER1_COMPA in_band) \<and>
       rtd_conversions (control_service (Fin 26) 1000 ((ISR_TIMER1_COMPA ^^ Suc 2) in_band)) =
         Suc (rtd_conversions in_band) \<and>
       length (issued in_band
                 (control_service (Fin 26) 1000 ((ISR_TIMER1_COMPA ^^ Suc 2) in_band)))
         \<le> 1 \<and>
       control_flag (control_service (Fin 26) 1000 ((ISR_TIMER1_COMPA ^^ Suc 2) in_band)) =
         False)"
proof -
  have pending:
    "control_flag
       (command_dispatch (set_setpoint (Fin 30))
          (line_arrives ((ISR_TIMER1_COMPA ^^ Suc 2) in_band)))"
    by (simp only: isr_repeated)
       (simp add: command_dispatch_def line_arrives_def set_setpoint_def)
  from pending
    loop_services_tick_once [where parseData = "set_setpoint (Fin 30)"
      and receive_data = line_arrives and s = "(ISR_TIMER1_COMPA ^^ Suc 2) in_band",
      OF pending]
  show ?thesis
    by (rule conjI)
qed

text \<open>
  The ticks of the witness, evaluated: before them the flag of \<open>in_band\<close> is clear and
  a control service does nothing; after three ticks one service makes one conversion.
\<close>

lemma three_ticks_one_service:
  "control_flag in_band = False"
  "control_service (Fin 26) 1000 in_band = in_band"
  "rtd_conversions in_band = 1"
  "rtd_conversions (control_service (Fin 26) 1000 ((ISR_TIMER1_COMPA ^^ Suc 2) in_band)) = 2"
  by (simp_all only: isr_repeated)
     (simp_all add: control_service_def read_temperature_def control_def set_dac_def
        in_band_def running_def power_on_def Let_def)

text \<open>
  C7. A pass of \<^verbatim>\<open>loop()\<close> runs serial intake, then command dispatch, then control
  service. When the intake has completed a line and a tick is pending after the
  dispatch of that line, the control service of the same pass works on the state \<open>q\<close>
  the dispatcher left: the new error is the reading minus the setpoint of \<open>q\<close>, the
  control law runs if the mode of \<open>q\<close> is \<^verbatim>\<open>CLOSED_LOOP\<close>, and it decides with the
  band of \<open>q\<close>.
\<close>

theorem dispatch_before_service:
  assumes "newData (receive_data s)"
    and "control_flag
           (parseData ((receive_data s)\<lparr>temp_data := received_data (receive_data s)\<rparr>))"
  shows "let q = (parseData ((receive_data s)\<lparr>temp_data := received_data (receive_data s)\<rparr>))
                   \<lparr>newData := False\<rparr>;
             s' = loop receive_data parseData reading now s
         in s' = control_service reading now q \<and>
            temperature s' = reading \<and>
            setpoint s' = setpoint q \<and>
            error s' = fsub reading (setpoint q) \<and>
            issued q s' =
              (if mode q = CLOSED_LOOP then
                 (if fge (fsub reading (setpoint q)) (fhalf (band q)) then [- 4095]
                  else if flt (fsub reading (setpoint q)) (fhalf (fneg (band q))) then [0]
                  else [])
               else [])"
  using assms
  by (simp add: loop_def command_dispatch_def control_service_def read_temperature_def
      issued_def dac_commands_control control_def set_dac_def Let_def)

theorem dispatch_before_service_witness:
  "(newData (line_arrives tick_pending) \<and>
    control_flag
      (set_setpoint (Fin 30)
         ((line_arrives tick_pending)
            \<lparr>temp_data := received_data (line_arrives tick_pending)\<rparr>))) \<and>
   (let q = (set_setpoint (Fin 30)
               ((line_arrives tick_pending)
                  \<lparr>temp_data := received_data (line_arrives tick_pending)\<rparr>))
              \<lparr>newData := False\<rparr>;
        s' = loop line_arrives (set_setpoint (Fin 30)) (Fin 26) 1000 tick_pending
    in s' = control_service (Fin 26) 1000 q \<and>
       temperature s' = Fin 26 \<and>
       setpoint s' = setpoint q \<and>
       error s' = fsub (Fin 26) (setpoint q) \<and>
       issued q s' =
         (if mode q = CLOSED_LOOP then
            (if fge (fsub (Fin 26) (setpoint q)) (fhalf (band q)) then [- 4095]
             else if flt (fsub (Fin 26) (setpoint q)) (fhalf (fneg (band q))) then [0]
             else [])
          else []))"
proof -
  have line: "newData (line_arrives tick_pending)"
    by (simp add: line_arrives_def)
  have pending: "control_flag
      (set_setpoint (Fin 30)
         ((line_arrives tick_pending)
            \<lparr>temp_data := received_data (line_arrives tick_pending)\<rparr>))"
    by (simp add: set_setpoint_def line_arrives_def tick_pending_def)
  from line pending have "newData (line_arrives tick_pending) \<and>
      control_flag
        (set_setpoint (Fin 30)
           ((line_arrives tick_pending)
              \<lparr>temp_data := received_data (line_arrives tick_pending)\<rparr>))"
    by (rule conjI)
  from this
    dispatch_before_service [where parseData = "set_setpoint (Fin 30)"
      and receive_data = line_arrives and s = tick_pending, OF line pending]
  show ?thesis
    by (rule conjI)
qed

text \<open>
  The pass of the witness, evaluated: with the setpoint 30 just received, the reading 26
  lies below the band and the command 0 is issued; the same reading with the setpoint
  24.5 that held before the line arrived lies inside the band, and nothing is issued.
\<close>

lemma setpoint_line_takes_effect:
  "issued tick_pending (loop line_arrives (set_setpoint (Fin 30)) (Fin 26) 1000 tick_pending) = [0]"
  "error (loop line_arrives (set_setpoint (Fin 30)) (Fin 26) 1000 tick_pending) = Fin (- 4)"
  "issued tick_pending (loop (\<lambda>s. s) (\<lambda>s. s) (Fin 26) 1000 tick_pending) = []"
  "error (loop (\<lambda>s. s) (\<lambda>s. s) (Fin 26) 1000 tick_pending) = Fin 1.5"
  by (simp_all add: loop_def command_dispatch_def control_service_def read_temperature_def
        issued_def control_def set_dac_def line_arrives_def set_setpoint_def tick_pending_def
        in_band_def running_def power_on_def round32_def round_mag_def Let_def,
      simp_all add: ulp_of.simps, simp_all add: rne_def Let_def)

end
